theory Spec2Isabelle
  imports Complex_Main "HOL-Library.Sublist" "HOL-Library.Multiset"
    "HOL-Library.Product_Lexorder"
begin

section \<open>Runtime values\<close>

text \<open>
  A TypeScript \<open>number\<close> is modelled as a real: the numbers of this program are
  finite (scores parsed from JSON, slider positions, \<open>Math.random()\<close> draws), and on
  finite doubles \<open>>=\<close>, \<open><\<close>, the sign of a difference and truthiness (\<open>x\<close> is truthy iff
  \<open>x \<noteq> 0\<close>) agree with the reals. \<open>NaN\<close> and the infinities are outside the model.
  The product \<open>similarity * 100\<close> of the product card is the product of doubles,
  \<open>times_double\<close> below: the exact product rounded to the nearest double. The score
  arithmetic of the mock catalog is kept exact; what is stated of the mock results is
  their order and their dependence on the draws. An optional field or argument is an
  \<open>option\<close>, \<open>None\<close> being \<open>undefined\<close> (or \<open>null\<close>).
\<close>

type_synonym number = real

text \<open>\<open>x ? \<dots> : \<dots>\<close> and \<open>x || \<dots>\<close> on an optional number: \<open>undefined\<close> and \<open>0\<close> are falsy.\<close>

definition truthy_number :: "number option \<Rightarrow> bool" where
  "truthy_number x = (case x of None \<Rightarrow> False | Some v \<Rightarrow> v \<noteq> 0)"

text \<open>Truthiness of an optional string: \<open>undefined\<close>, \<open>null\<close> and \<open>""\<close> are falsy.\<close>

definition truthy_string :: "string option \<Rightarrow> bool" where
  "truthy_string x = (case x of None \<Rightarrow> False | Some v \<Rightarrow> v \<noteq> [])"

text \<open>\<open>a || b\<close> on optional numbers, and \<open>a || 0\<close>, which is always a number.\<close>

definition or_number :: "number option \<Rightarrow> number option \<Rightarrow> number option" where
  "or_number a b = (if truthy_number a then a else b)"

definition or_zero :: "number option \<Rightarrow> number" where
  "or_zero a = (case a of None \<Rightarrow> 0 | Some v \<Rightarrow> if v \<noteq> 0 then v else 0)"

text \<open>\<open>s || undefined\<close> on an optional string.\<close>

definition or_undefined :: "string option \<Rightarrow> string option" where
  "or_undefined s = (if truthy_string s then s else None)"

definition startsWith :: "string \<Rightarrow> string \<Rightarrow> bool" where
  "startsWith s p = prefix p s"

text \<open>\<open>Math.round\<close> rounds to the nearest integer, a half towards \<open>+\<infinity>\<close>.\<close>

definition Math_round :: "number \<Rightarrow> int" where
  "Math_round x = \<lfloor>x + 1 / 2\<rfloor>"

text \<open>
  The arithmetic of doubles (IEEE 754 binary64, round to nearest, ties to even), for
  results within the range of the finite doubles. A double has 53 significant bits:
  in the binade \<open>2^e \<le> |x| < 2^(e+1)\<close> the doubles are the multiples of \<open>2^(e-52)\<close>, and
  below \<open>2^(-1022)\<close> (the subnormal numbers) the multiples of \<open>2^(-1074)\<close>. The result of
  an operation is the exact result rounded to the nearest of them, to the one with
  the even multiple when two are equally near.
\<close>

definition pow2 :: "int \<Rightarrow> real" where
  "pow2 e = (if 0 \<le> e then 2 ^ nat e else 1 / 2 ^ nat (- e))"

text \<open>The number of binary digits of a natural number.\<close>

function bit_length :: "nat \<Rightarrow> nat" where
  "bit_length n = (if n = 0 then 0 else Suc (bit_length (n div 2)))"
  by pat_completeness auto
termination
  by (relation "measure id") auto

text \<open>The binade of \<open>x\<close>: the \<open>e\<close> with \<open>2^e \<le> |x| < 2^(e+1)\<close> (and 0 for \<open>x = 0\<close>).\<close>

definition binade :: "real \<Rightarrow> int" where
  "binade x =
     (if 1 \<le> \<bar>x\<bar> then int (bit_length (nat \<lfloor>\<bar>x\<bar>\<rfloor>)) - 1
      else - int (bit_length (nat \<lceil>1 / \<bar>x\<bar>\<rceil> - 1)))"

definition round_half_even :: "real \<Rightarrow> int" where
  "round_half_even y =
     (let f = \<lfloor>y\<rfloor>; d = y - of_int f
      in if d < 1 / 2 then f else if 1 / 2 < d then f + 1 else if even f then f else f + 1)"

definition double_round :: "real \<Rightarrow> number" where
  "double_round x =
     (let u = pow2 (max (binade x) (- 1022) - 52)
      in of_int (round_half_even (x / u)) * u)"

text \<open>\<open>a * b\<close> on numbers.\<close>

definition times_double :: "number \<Rightarrow> number \<Rightarrow> number" where
  "times_double a b = double_round (a * b)"

text \<open>
  \<open>Math.random()\<close> reads and advances the generator of the runtime. The generator is the
  sequence of the draws still to come; a call returns the first one and leaves the rest.
\<close>

type_synonym rng = "nat \<Rightarrow> number"

definition Math_random :: "rng \<Rightarrow> number \<times> rng" where
  "Math_random g = (g 0, \<lambda>n. g (Suc n))"

text \<open>Decimal digits of a natural number (\<open>String(n)\<close> of an array length).\<close>

function nat_to_string :: "nat \<Rightarrow> string" where
  "nat_to_string n =
     (if n < 10 then [char_of (48 + n)]
      else nat_to_string (n div 10) @ [char_of (48 + n mod 10)])"
  by pat_completeness auto
termination
  by (relation "measure id") auto

text \<open>
  \<open>Array.prototype.sort(compareFn)\<close> belongs to the runtime. ECMAScript (2019 on) requires
  it to be stable; with a consistent comparator the outcome is then the same for every
  implementation, and it is the one of a stable insertion sort: \<open>a\<close> goes in front of the
  first \<open>b\<close> with \<open>compareFn(a, b) \<le> 0\<close>, elements being inserted from the last to the first.
\<close>

fun js_insert :: "('a \<Rightarrow> 'a \<Rightarrow> number) \<Rightarrow> 'a \<Rightarrow> 'a list \<Rightarrow> 'a list" where
  "js_insert cmp a [] = [a]"
| "js_insert cmp a (b # bs) = (if cmp a b \<le> 0 then a # b # bs else b # js_insert cmp a bs)"

fun js_sort :: "('a \<Rightarrow> 'a \<Rightarrow> number) \<Rightarrow> 'a list \<Rightarrow> 'a list" where
  "js_sort cmp [] = []"
| "js_sort cmp (a # as) = js_insert cmp a (js_sort cmp as)"


section \<open>The API client (\<open>lib/api\<close>)\<close>

record product =
  pid :: string
  name :: string
  category :: string
  price :: number
  currency :: string
  image_path :: string
  description :: string
  brand :: string
  available :: bool
  similarity :: "number option"
  similarity_percentage :: "number option"

record SearchResponse =
  query_id :: string
  results :: "product list"
  total_results :: number
  timestamp :: string

text \<open>A browser \<open>File\<close>: its name, its declared content type and its size in bytes.\<close>

record File =
  file_name :: string
  file_type :: string
  file_size :: nat

text \<open>
  An entry of a \<open>FormData\<close>: a file, a string, or the string \<open>n.toString()\<close> of a number
  \<open>n\<close>, kept as the number it prints.
\<close>

datatype formValue = FileValue File | StringValue string | NumberString number

type_synonym formData = "(string \<times> formValue) list"

record request =
  url :: string
  httpMethod :: string
  body :: formData

record ApiClient =
  baseUrl :: string

text \<open>\<open>import.meta.env.VITE_API_URL || 'http://localhost:8000'\<close>\<close>

definition API_BASE_URL :: "string option \<Rightarrow> string" where
  "API_BASE_URL VITE_API_URL =
     (if truthy_string VITE_API_URL then (case VITE_API_URL of Some u \<Rightarrow> u | None \<Rightarrow> [])
      else ''http://localhost:8000'')"

text \<open>
  \<open>searchSimilarProducts\<close> builds the form and posts it. The reply is the network's:
  \<open>fetch\<close> maps the request to the parsed \<open>SearchResponse\<close>, or to the message of the
  \<open>Error\<close> that is thrown. The function returns the request it has sent with the outcome.
  A default parameter value applies when the argument is \<open>undefined\<close>.
\<close>

definition searchSimilarProducts ::
  "ApiClient \<Rightarrow> (request \<Rightarrow> string + SearchResponse) \<Rightarrow> File option \<Rightarrow> string option \<Rightarrow>
     number option \<Rightarrow> number option \<Rightarrow> request \<times> (string + SearchResponse)" where
  "searchSimilarProducts this fetch file imageUrl topK_arg similarityThreshold_arg =
     (let topK = (case topK_arg of None \<Rightarrow> 11 | Some k \<Rightarrow> k);
          similarityThreshold = (case similarityThreshold_arg of None \<Rightarrow> 0.0 | Some t \<Rightarrow> t);
          formData0 = [];
          formData1 = (case file of
                         Some f \<Rightarrow> formData0 @ [(''file'', FileValue f)]
                       | None \<Rightarrow> formData0);
          formData2 = (case imageUrl of
                         Some u \<Rightarrow> if u \<noteq> [] then formData1 @ [(''image_url'', StringValue u)]
                                   else formData1
                       | None \<Rightarrow> formData1);
          formData3 = formData2 @ [(''top_k'', NumberString topK)];
          formData4 = formData3 @ [(''similarity_threshold'', NumberString similarityThreshold)];
          req = \<lparr>url = baseUrl this @ ''/api/search'', httpMethod = ''POST'', body = formData4\<rparr>
      in (req, fetch req))"

definition getImageUrl :: "ApiClient \<Rightarrow> string \<Rightarrow> string" where
  "getImageUrl this imagePath =
     (if startsWith imagePath ''http'' then imagePath
      else let cleanPath = (if startsWith imagePath ''static/'' then imagePath
                            else ''static/'' @ imagePath)
           in baseUrl this @ ''/'' @ cleanPath)"


section \<open>The mock catalog (\<open>data/mockProducts\<close>)\<close>

text \<open>
  The four image imports are resolved by the bundler to the URL of the asset; the
  model keeps the module path.
\<close>

definition phoneImg :: string where "phoneImg = ''@/assets/product-phone.jpg''"
definition bagImg :: string where "bagImg = ''@/assets/product-bag.jpg''"
definition shoesImg :: string where "shoesImg = ''@/assets/product-shoes.jpg''"
definition headphonesImg :: string where "headphonesImg = ''@/assets/product-headphones.jpg''"

definition mockProduct ::
  "string \<Rightarrow> string \<Rightarrow> string \<Rightarrow> number \<Rightarrow> string \<Rightarrow> string \<Rightarrow> string \<Rightarrow> product" where
  "mockProduct i n c p img d b =
     \<lparr>pid = i, name = n, category = c, price = p, currency = ''USD'', image_path = img,
      description = d, brand = b, available = True, similarity = None,
      similarity_percentage = None\<rparr>"

definition mockProducts :: "product list" where
  "mockProducts =
     [mockProduct ''1'' ''iPhone 15 Pro'' ''Electronics'' 999 phoneImg
        ''Latest flagship smartphone with titanium design'' ''Apple'',
      mockProduct ''2'' ''Premium Leather Handbag'' ''Bags'' 299 bagImg
        ''Luxury leather handbag with elegant design'' ''Designer Brand'',
      mockProduct ''3'' ''Athletic Running Shoes'' ''Shoes'' 129 shoesImg
        ''Premium running sneakers for athletic performance'' ''SportBrand'',
      mockProduct ''4'' ''Wireless Headphones'' ''Electronics'' 199 headphonesImg
        ''High-quality wireless headphones with noise cancellation'' ''AudioTech'',
      mockProduct ''5'' ''Samsung Galaxy S24'' ''Electronics'' 899 phoneImg
        ''Android flagship with AI features'' ''Samsung'',
      mockProduct ''6'' ''Classic Crossbody Bag'' ''Bags'' 179 bagImg
        ''Versatile crossbody bag for everyday use'' ''Fashion Co'',
      mockProduct ''7'' ''Trail Running Shoes'' ''Shoes'' 149 shoesImg
        ''Durable shoes designed for trail running'' ''OutdoorGear'',
      mockProduct ''8'' ''Gaming Headset'' ''Electronics'' 89 headphonesImg
        ''Professional gaming headset with RGB lighting'' ''GameTech'']"

text \<open>
  \<open>products.map(f)\<close> where the callback draws from \<open>Math.random()\<close>: the callback runs
  on the elements from the first to the last, each call taking the next draw.
\<close>

fun map_random ::
  "('a \<Rightarrow> number \<Rightarrow> 'b) \<Rightarrow> 'a list \<Rightarrow> rng \<Rightarrow> 'b list \<times> rng" where
  "map_random f [] g = ([], g)"
| "map_random f (x # xs) g =
     (let (r, g1) = Math_random g;
          (ys, g2) = map_random f xs g1
      in (f x r # ys, g2))"

definition withRandomSimilarity :: "product \<Rightarrow> number \<Rightarrow> product" where
  "withRandomSimilarity product r = product\<lparr>similarity := Some (r * 0.4 + 0.6)\<rparr>"

definition bySimilarityDesc :: "product \<Rightarrow> product \<Rightarrow> number" where
  "bySimilarityDesc a b = or_zero (similarity b) - or_zero (similarity a)"

text \<open>The argument \<open>uploadedImage\<close> is optional and is not read.\<close>

definition generateMockSearchResults :: "string option \<Rightarrow> rng \<Rightarrow> product list \<times> rng" where
  "generateMockSearchResults uploadedImage g =
     (let (scored, g1) = map_random withRandomSimilarity mockProducts g
      in (js_sort bySimilarityDesc scored, g1))"


section \<open>The product card (\<open>components/ProductCard\<close>)\<close>

definition similarityPercentage :: "product \<Rightarrow> int" where
  "similarityPercentage product =
     (if truthy_number (similarity product)
      then (case similarity product of
              Some s \<Rightarrow> Math_round (times_double s 100)
            | None \<Rightarrow> 0)
      else 0)"

definition getSimilarityColor :: "int \<Rightarrow> string" where
  "getSimilarityColor score =
     (if score \<ge> 90 then ''bg-success text-success-foreground''
      else if score \<ge> 75 then ''bg-warning text-warning-foreground''
      else ''bg-muted text-muted-foreground'')"

text \<open>
  What \<open>{showSimilarity && product.similarity && <Badge>\<dots></Badge>}\<close> puts on the card:
  nothing for \<open>false\<close> and \<open>undefined\<close>, the text \<open>0\<close> for the number \<open>0\<close>, and otherwise
  the badge with its colour classes and the percentage in front of \<open>% match\<close>.
  \<open>showSimilarity\<close> defaults to \<open>false\<close>.
\<close>

datatype rendered = Nothing | Text string | Badge string int

definition similarityBadge :: "product \<Rightarrow> bool option \<Rightarrow> rendered" where
  "similarityBadge product showSimilarity_arg =
     (let showSimilarity = (case showSimilarity_arg of None \<Rightarrow> False | Some b \<Rightarrow> b)
      in if \<not> showSimilarity then Nothing
         else (case similarity product of
                 None \<Rightarrow> Nothing
               | Some s \<Rightarrow> if s \<noteq> 0
                           then Badge (getSimilarityColor (similarityPercentage product))
                                  (similarityPercentage product)
                           else Text ''0''))"

definition cardImageSrc :: "ApiClient \<Rightarrow> product \<Rightarrow> string" where
  "cardImageSrc api product = getImageUrl api (image_path product)"


section \<open>The uploader (\<open>components/ImageUploader\<close>)\<close>

record toast =
  title :: string
  description :: string
  variant :: "string option"

text \<open>The argument of \<open>onImageUpload\<close>: \<open>File | string\<close>.\<close>

datatype image = ImageFile File | ImageString string

text \<open>
  \<open>URL.createObjectURL\<close> is the browser's: it returns \<open>blob:\<close> followed by the origin and
  a fresh identifier, which is the argument here.
\<close>

definition URL_createObjectURL :: "string \<Rightarrow> string" where
  "URL_createObjectURL fresh = ''blob:'' @ fresh"

record uploader =
  dragActive :: bool
  previewUrl :: string
  urlInput :: string
  showUrlInput :: bool

datatype effect = Toast toast | OnImageUpload image

text \<open>
  \<open>handleFiles\<close> looks at the first file of the list only. It returns the new state of
  the uploader and what it has done: a toast, or a call of \<open>onImageUpload\<close>.
\<close>

definition handleFiles :: "File list \<Rightarrow> string \<Rightarrow> uploader \<Rightarrow> uploader \<times> effect list" where
  "handleFiles files fresh u =
     (case files of
        [] \<Rightarrow> (u, [])
      | file # rest \<Rightarrow>
          if \<not> startsWith (file_type file) ''image/''
          then (u, [Toast \<lparr>title = ''Invalid file type'',
                           description = ''Please upload an image file'',
                           variant = Some ''destructive''\<rparr>])
          else if file_size file > 10 * 1024 * 1024
          then (u, [Toast \<lparr>title = ''File too large'',
                           description = ''Please upload an image smaller than 10MB'',
                           variant = Some ''destructive''\<rparr>])
          else (u\<lparr>previewUrl := URL_createObjectURL fresh\<rparr>, [OnImageUpload (ImageFile file)]))"


section \<open>The matcher (\<open>components/ProductMatcher\<close>)\<close>

text \<open>
  The state of the component, with two logs of what it has done: the toasts it has
  shown and the requests it has sent through the API client.
\<close>

record matcher =
  uploadedImage :: "string option"
  uploadedFile :: "File option"
  imageUrl :: "string option"
  searchResults :: "product list"
  isLoading :: bool
  hasSearched :: bool
  similarityThreshold :: number
  selectedCategories :: "string list"
  filtersCollapsed :: bool
  categories :: "string list"
  error :: "string option"
  toasts :: "toast list"
  requests :: "request list"

definition initial :: matcher where
  "initial =
     \<lparr>uploadedImage = None, uploadedFile = None, imageUrl = None, searchResults = [],
      isLoading = False, hasSearched = False, similarityThreshold = 0,
      selectedCategories = [], filtersCollapsed = False, categories = [''All''],
      error = None, toasts = [], requests = []\<rparr>"

definition meetsThreshold :: "number \<Rightarrow> product \<Rightarrow> bool" where
  "meetsThreshold threshold product =
     (let sim = or_zero (or_number (similarity_percentage product) (similarity product))
      in sim \<ge> threshold)"

definition meetsCategory :: "string list \<Rightarrow> product \<Rightarrow> bool" where
  "meetsCategory selected product =
     (length selected = 0 \<or> ''All'' \<in> set selected \<or> category product \<in> set selected)"

definition filteredResults :: "product list \<Rightarrow> number \<Rightarrow> string list \<Rightarrow> product list" where
  "filteredResults found threshold selected =
     filter (\<lambda>product. meetsThreshold threshold product \<and> meetsCategory selected product)
       found"

definition handleImageUpload :: "image \<Rightarrow> string \<Rightarrow> matcher \<Rightarrow> matcher" where
  "handleImageUpload img fresh s =
     (let s1 = s\<lparr>error := None\<rparr>;
          s2 = (case img of
                  ImageString str \<Rightarrow>
                    s1\<lparr>uploadedImage := Some str, imageUrl := Some str, uploadedFile := None\<rparr>
                | ImageFile f \<Rightarrow>
                    s1\<lparr>uploadedImage := Some (URL_createObjectURL fresh),
                       uploadedFile := Some f, imageUrl := None\<rparr>)
      in s2\<lparr>hasSearched := False\<rparr>)"

definition handleSearch ::
  "ApiClient \<Rightarrow> (request \<Rightarrow> string + SearchResponse) \<Rightarrow> matcher \<Rightarrow> matcher" where
  "handleSearch api fetch s =
     (if \<not> truthy_string (uploadedImage s)
      then s\<lparr>toasts := toasts s @
                [\<lparr>title = ''No image selected'',
                  description = ''Please upload an image to search for similar products'',
                  variant = Some ''destructive''\<rparr>]\<rparr>
      else
        let s1 = s\<lparr>isLoading := True, error := None\<rparr>;
            s2 = s1\<lparr>toasts := toasts s1 @
                       [\<lparr>title = ''Searching...'',
                         description = ''Finding visually similar products using AI'',
                         variant = None\<rparr>]\<rparr>;
            (req, outcome) = searchSimilarProducts api fetch (uploadedFile s)
                               (or_undefined (imageUrl s)) (Some 11) (Some 0.0);
            s3 = s2\<lparr>requests := requests s2 @ [req]\<rparr>;
            s4 = (case outcome of
                    Inr response \<Rightarrow>
                      let filteredCount =
                            length (filteredResults (results response) (similarityThreshold s)
                                      (selectedCategories s))
                      in s3\<lparr>searchResults := results response, hasSearched := True,
                            toasts := toasts s3 @
                              [\<lparr>title = ''Search completed!'',
                                description =
                                  ''Found '' @ nat_to_string filteredCount @ '' products'',
                                variant = Some ''default''\<rparr>]\<rparr>
                  | Inl errorMessage \<Rightarrow>
                      s3\<lparr>error := Some errorMessage,
                         toasts := toasts s3 @
                           [\<lparr>title = ''Search failed'', description = errorMessage,
                             variant = Some ''destructive''\<rparr>]\<rparr>)
        in s4\<lparr>isLoading := False\<rparr>)"

definition handleCategoryToggle :: "string \<Rightarrow> matcher \<Rightarrow> matcher" where
  "handleCategoryToggle c s =
     (if c = ''All'' then s\<lparr>selectedCategories := []\<rparr>
      else let prev = selectedCategories s
           in s\<lparr>selectedCategories :=
                  (if c \<in> set prev then filter (\<lambda>x. x \<noteq> c) prev
                   else filter (\<lambda>x. x \<noteq> ''All'') prev @ [c])\<rparr>)"

definition handleClearFilters :: "matcher \<Rightarrow> matcher" where
  "handleClearFilters s = s\<lparr>similarityThreshold := 0, selectedCategories := []\<rparr>"

text \<open>
  What can happen to the component: the uploader hands over an image (with the
  identifier the browser mints for an object URL), the user searches (with the
  network's answer), moves the threshold, toggles a category, clears the filters or
  folds the panel, and the categories arrive (or fail to).
\<close>

datatype event =
    ImageUpload image string
  | Search "request \<Rightarrow> string + SearchResponse"
  | SimilarityChange number
  | CategoryToggle string
  | ClearFilters
  | ToggleCollapse
  | CategoriesLoaded "string list option"

fun step :: "ApiClient \<Rightarrow> event \<Rightarrow> matcher \<Rightarrow> matcher" where
  "step api (ImageUpload img fresh) s = handleImageUpload img fresh s"
| "step api (Search fetch) s = handleSearch api fetch s"
| "step api (SimilarityChange v) s = s\<lparr>similarityThreshold := v\<rparr>"
| "step api (CategoryToggle c) s = handleCategoryToggle c s"
| "step api ClearFilters s = handleClearFilters s"
| "step api ToggleCollapse s = s\<lparr>filtersCollapsed := \<not> filtersCollapsed s\<rparr>"
| "step api (CategoriesLoaded (Some cs)) s = s\<lparr>categories := cs\<rparr>"
| "step api (CategoriesLoaded None) s =
     s\<lparr>categories := [''All'', ''Electronics'', ''Shoes'', ''Bags'', ''Clothing'', ''Home'',
                       ''Accessories'']\<rparr>"

fun run :: "ApiClient \<Rightarrow> event list \<Rightarrow> matcher \<Rightarrow> matcher" where
  "run api [] s = s"
| "run api (e # es) s = run api es (step api e s)"

text \<open>The product handed to a card of the results grid: its image path made a URL.\<close>

definition gridCardProduct :: "ApiClient \<Rightarrow> product \<Rightarrow> product" where
  "gridCardProduct api product = product\<lparr>image_path := getImageUrl api (image_path product)\<rparr>"


section \<open>Observations used in the statements\<close>

text \<open>The score the comparator reads: \<open>product.similarity || 0\<close>.\<close>

definition score :: "product \<Rightarrow> number" where
  "score p = or_zero (similarity p)"

text \<open>The position of a product in the catalog, found by its identifier.\<close>

fun index_of :: "'a \<Rightarrow> 'a list \<Rightarrow> nat" where
  "index_of x [] = 0"
| "index_of x (y # ys) = (if x = y then 0 else Suc (index_of x ys))"

definition catalogIndex :: "product \<Rightarrow> nat" where
  "catalogIndex p = index_of (pid p) (map pid mockProducts)"

text \<open>
  The scored catalog of a call: the catalog in its order, the product at position \<open>i\<close>
  with the score made from the draw \<open>i\<close> of the call.
\<close>

definition scoredCatalog :: "rng \<Rightarrow> product list" where
  "scoredCatalog g =
     map2 withRandomSimilarity mockProducts (map g [0..<length mockProducts])"

text \<open>The rank of a result: the higher score first, then the earlier place in the catalog.\<close>

definition rank :: "product \<Rightarrow> real \<times> nat" where
  "rank p = (- score p, catalogIndex p)"

text \<open>
  Two invocations of \<open>generateMockSearchResults\<close> for the same image, one after the
  other: the second call goes on with the generator as the first call has left it.
\<close>

definition twoRuns :: "string option \<Rightarrow> rng \<Rightarrow> product list \<times> product list" where
  "twoRuns img g =
     (let (first, g1) = generateMockSearchResults img g;
          (second, g2) = generateMockSearchResults img g1
      in (first, second))"

text \<open>Whether a request carries a form entry of a given name.\<close>

definition has_field :: "string \<Rightarrow> request \<Rightarrow> bool" where
  "has_field k req = (k \<in> set (map fst (body req)))"

definition one_source :: "request \<Rightarrow> bool" where
  "one_source req = (\<not> (has_field ''file'' req \<and> has_field ''image_url'' req))"

text \<open>
  The invariant of the matcher: with a stored file there is no stored URL and the
  preview is an object URL; without one the preview is the stored URL (both absent
  at the start); and no request sent so far carries both a file and an image URL.
\<close>

definition sources_inv :: "matcher \<Rightarrow> bool" where
  "sources_inv s =
     ((case uploadedFile s of
         Some f \<Rightarrow> imageUrl s = None \<and> truthy_string (uploadedImage s)
       | None \<Rightarrow> uploadedImage s = imageUrl s)
      \<and> list_all one_source (requests s))"


section \<open>Sample inputs\<close>

definition offline :: "request \<Rightarrow> string + SearchResponse" where
  "offline req = Inl ''Failed to fetch''"

definition localApi :: ApiClient where
  "localApi = \<lparr>baseUrl = ''http://localhost:8000''\<rparr>"

definition pngFile :: File where
  "pngFile = \<lparr>file_name = ''shoe.png'', file_type = ''image/png'', file_size = 2048\<rparr>"

definition gifFile :: File where
  "gifFile = \<lparr>file_name = ''shoe.gif'', file_type = ''image/gif'', file_size = 2048\<rparr>"

definition pdfFile :: File where
  "pdfFile = \<lparr>file_name = ''shoe.pdf'', file_type = ''application/pdf'', file_size = 2048\<rparr>"

definition hugePng :: File where
  "hugePng = \<lparr>file_name = ''huge.png'', file_type = ''image/png'', file_size = 10485761\<rparr>"

definition idle :: uploader where
  "idle = \<lparr>dragActive = False, previewUrl = [], urlInput = [], showUrlInput = False\<rparr>"

definition plainBag :: product where
  "plainBag = mockProduct ''2'' ''Premium Leather Handbag'' ''Bags'' 299 bagImg
                ''Luxury leather handbag with elegant design'' ''Designer Brand''"

definition bag60 :: product where
  "bag60 = plainBag\<lparr>similarity := Some 0.6, similarity_percentage := Some 60\<rparr>"

definition shoes90 :: product where
  "shoes90 = (mockProduct ''3'' ''Athletic Running Shoes'' ''Shoes'' 129 shoesImg
                ''Premium running sneakers for athletic performance'' ''SportBrand'')
             \<lparr>similarity := Some 0.9, similarity_percentage := Some 90\<rparr>"

text \<open>
  A result with the score that the text \<open>0.745\<close> parses to (the nearest double), one
  with the score 0.75, and two with the scores an eighth and minus an eighth.
\<close>

definition bag745 :: product where
  "bag745 = plainBag\<lparr>similarity := Some (6710363444782039 / 2 ^ 53)\<rparr>"

definition bag75 :: product where
  "bag75 = plainBag\<lparr>similarity := Some 0.75\<rparr>"

definition bagEighth :: product where
  "bagEighth = plainBag\<lparr>similarity := Some 0.125\<rparr>"

definition bagMinusEighth :: product where
  "bagMinusEighth = plainBag\<lparr>similarity := Some (- 0.125)\<rparr>"

definition fileRequest :: request where
  "fileRequest =
     \<lparr>url = ''http://localhost:8000/api/search'', httpMethod = ''POST'',
      body = [(''file'', FileValue pngFile), (''top_k'', NumberString 11),
              (''similarity_threshold'', NumberString 0)]\<rparr>"

definition bothState :: matcher where
  "bothState = initial\<lparr>uploadedImage := Some ''blob:localhost/1'',
                       uploadedFile := Some pngFile,
                       imageUrl := Some ''http://example.com/shoe.jpg''\<rparr>"

definition sampleRun :: "event list" where
  "sampleRun = [ImageUpload (ImageString ''http://example.com/shoe.jpg'') [],
                Search offline,
                ImageUpload (ImageFile pngFile) ''localhost/1'',
                Search offline]"

definition emptyUrlRun :: "event list" where
  "emptyUrlRun = [ImageUpload (ImageFile pngFile) ''localhost/1'', Search offline,
                  ImageUpload (ImageString []) []]"

definition risingThenFalling :: rng where
  "risingThenFalling n =
     (if n < 8 then real n / 10 else if n < 16 then real (15 - n) / 10 else 0)"

definition fallingThenRising :: rng where
  "fallingThenRising n =
     (if n < 8 then real (7 - n) / 8 else if n < 16 then real (n - 8) / 8 else 0)"

definition risingThenHalf :: rng where
  "risingThenHalf n = (if n < 8 then real n / 10 else 1 / 2)"

definition evenDraws :: rng where
  "evenDraws n = 1 / 2"


section \<open>Theorems\<close>

text \<open>The definitions that the evaluation of a concrete input unfolds.\<close>

lemmas sample_defs = plainBag_def bag60_def shoes90_def mockProduct_def pngFile_def gifFile_def
  pdfFile_def hugePng_def idle_def localApi_def offline_def

lemmas double_defs = times_double_def double_round_def binade_def pow2_def
  round_half_even_def Let_def

lemmas filter_defs = filteredResults_def meetsThreshold_def meetsCategory_def or_zero_def
  or_number_def truthy_number_def

lemmas matcher_defs = initial_def handleImageUpload_def handleSearch_def
  searchSimilarProducts_def Let_def truthy_string_def or_undefined_def URL_createObjectURL_def

lemmas mock_defs = twoRuns_def generateMockSearchResults_def mockProducts_def mockProduct_def
  Let_def case_prod_beta Math_random_def withRandomSimilarity_def bySimilarityDesc_def
  or_zero_def


subsection \<open>The API client\<close>

lemma startsWith_append: "startsWith b p \<Longrightarrow> startsWith (b @ s) p"
  by (simp add: startsWith_def)

lemma getImageUrl_http:
  "startsWith (baseUrl c) ''http'' \<Longrightarrow> startsWith (getImageUrl c p) ''http''"
  unfolding getImageUrl_def Let_def by (simp add: startsWith_append)

lemma getImageUrl_fixed: "startsWith q ''http'' \<Longrightarrow> getImageUrl c q = q"
  by (simp add: getImageUrl_def)

text \<open>
  C10. \<open>getImageUrl\<close> is idempotent for a client whose base URL starts with \<open>http\<close>: a path
  that starts with \<open>http\<close> is returned as it is, every other result starts with the base
  URL, hence with \<open>http\<close>, and so a second application changes nothing. This is what
  happens to a card of the results grid: the matcher applies \<open>getImageUrl\<close> to the image
  path and the card applies it again to the result.
\<close>

theorem getImageUrl_idempotent:
  assumes "startsWith (baseUrl c) ''http''"
  shows "getImageUrl c (getImageUrl c p) = getImageUrl c p
         \<and> cardImageSrc c (gridCardProduct c product) = getImageUrl c (image_path product)"
proof -
  have "getImageUrl c (getImageUrl c q) = getImageUrl c q" for q
    by (rule getImageUrl_fixed) (rule getImageUrl_http [OF assms])
  then show ?thesis
    by (simp add: cardImageSrc_def gridCardProduct_def)
qed

theorem getImageUrl_idempotent_witness:
  "startsWith (baseUrl localApi) ''http''
   \<and> getImageUrl localApi (getImageUrl localApi ''images/bag.jpg'')
       = ''http://localhost:8000/static/images/bag.jpg''"
proof -
  have h: "startsWith (baseUrl localApi) ''http''"
    by (simp add: startsWith_def localApi_def)
  have v: "getImageUrl localApi ''images/bag.jpg''
           = ''http://localhost:8000/static/images/bag.jpg''"
    by (simp add: getImageUrl_def startsWith_def localApi_def)
  from getImageUrl_idempotent [OF h, of "''images/bag.jpg''"] h v show ?thesis
    by simp
qed

text \<open>
  C7. A call of \<open>searchSimilarProducts\<close> that leaves out the two optional parameters is the
  call with \<open>topK = 11\<close> and \<open>similarityThreshold = 0.0\<close>: the form it posts has \<open>top_k\<close>
  11 and \<open>similarity_threshold\<close> 0.
\<close>

theorem searchSimilarProducts_defaults:
  "searchSimilarProducts api fetch fl iurl None None
     = searchSimilarProducts api fetch fl iurl (Some 11) (Some 0.0)
   \<and> map_of (body (fst (searchSimilarProducts api fetch fl iurl None None))) ''top_k''
       = Some (NumberString 11)
   \<and> map_of (body (fst (searchSimilarProducts api fetch fl iurl None None)))
         ''similarity_threshold''
       = Some (NumberString 0.0)"
  by (simp add: searchSimilarProducts_def Let_def split: option.split)

theorem searchSimilarProducts_defaults_witness:
  "body (fst (searchSimilarProducts localApi offline (Some pngFile) None None None))
     = body fileRequest"
proof -
  have "body (fst (searchSimilarProducts localApi offline (Some pngFile) None (Some 11)
                     (Some 0.0))) = body fileRequest"
    by (simp add: searchSimilarProducts_def Let_def fileRequest_def)
  with searchSimilarProducts_defaults [of localApi offline "Some pngFile" None]
  show ?thesis by simp
qed

lemma form_fields:
  "map fst (body (fst (searchSimilarProducts api fetch fl u k t)))
     = (if fl \<noteq> None then [''file''] else [])
       @ (if truthy_string u then [''image_url''] else [])
       @ [''top_k'', ''similarity_threshold'']"
  by (cases fl; cases u)
     (simp_all add: searchSimilarProducts_def Let_def truthy_string_def)

lemma has_file_iff:
  "has_field ''file'' (fst (searchSimilarProducts api fetch fl u k t)) \<longleftrightarrow> fl \<noteq> None"
  by (simp add: has_field_def form_fields)

lemma has_image_url_iff:
  "has_field ''image_url'' (fst (searchSimilarProducts api fetch fl u k t)) \<longleftrightarrow> truthy_string u"
  by (simp add: has_field_def form_fields)

lemma truthy_string_None [simp]: "\<not> truthy_string None"
  by (simp add: truthy_string_def)

lemma or_undefined_truthy [simp]: "truthy_string (or_undefined u) = truthy_string u"
  by (simp add: or_undefined_def truthy_string_def)

lemma requests_handleSearch:
  "requests (handleSearch api fetch s) =
     (if truthy_string (uploadedImage s)
      then requests s @ [fst (searchSimilarProducts api fetch (uploadedFile s)
                                (or_undefined (imageUrl s)) (Some 11) (Some 0.0))]
      else requests s)"
  by (simp add: handleSearch_def Let_def split: prod.split sum.split)

lemma sources_handleSearch:
  "uploadedImage (handleSearch api fetch s) = uploadedImage s
   \<and> uploadedFile (handleSearch api fetch s) = uploadedFile s
   \<and> imageUrl (handleSearch api fetch s) = imageUrl s"
  by (simp add: handleSearch_def Let_def split: prod.split sum.split)

text \<open>
  C4, as the code has it. When \<open>searchSimilarProducts\<close> is given both a file and a
  non-empty image URL, the form it posts carries both, the \<open>file\<close> entry followed by the
  \<open>image_url\<close> entry: the client applies no precedence and leaves the choice to the
  server. \<open>handleSearch\<close> hands both stored sources over as they are. (The matcher
  itself never stores both, see C9.)
\<close>

theorem searchSimilarProducts_sends_both:
  assumes "u \<noteq> []"
  shows "body (fst (searchSimilarProducts api fetch (Some f) (Some u) (Some k) (Some t)))
           = [(''file'', FileValue f), (''image_url'', StringValue u),
              (''top_k'', NumberString k), (''similarity_threshold'', NumberString t)]
         \<and> (truthy_string (uploadedImage s) \<and> uploadedFile s = Some f \<and> imageUrl s = Some u
            \<longrightarrow> requests (handleSearch api fetch s)
                 = requests s @ [fst (searchSimilarProducts api fetch (Some f) (Some u)
                                        (Some 11) (Some 0.0))])"
proof (intro conjI impI)
  show "body (fst (searchSimilarProducts api fetch (Some f) (Some u) (Some k) (Some t)))
           = [(''file'', FileValue f), (''image_url'', StringValue u),
              (''top_k'', NumberString k), (''similarity_threshold'', NumberString t)]"
    using assms by (simp add: searchSimilarProducts_def Let_def)
next
  assume "truthy_string (uploadedImage s) \<and> uploadedFile s = Some f \<and> imageUrl s = Some u"
  with assms show "requests (handleSearch api fetch s)
                 = requests s @ [fst (searchSimilarProducts api fetch (Some f) (Some u)
                                        (Some 11) (Some 0.0))]"
    by (simp add: requests_handleSearch or_undefined_def truthy_string_def)
qed

text \<open>
  The wording of the specification fails: with a file and a URL the URL is not ignored, it
  is posted next to the file.
\<close>

theorem searchSimilarProducts_url_counterexample:
  "(''file'', FileValue pngFile)
     \<in> set (body (fst (searchSimilarProducts localApi offline (Some pngFile)
                          (Some ''http://example.com/shoe.jpg'') None None)))
   \<and> (''image_url'', StringValue ''http://example.com/shoe.jpg'')
     \<in> set (body (fst (searchSimilarProducts localApi offline (Some pngFile)
                          (Some ''http://example.com/shoe.jpg'') None None)))"
  by (simp add: searchSimilarProducts_def Let_def)

theorem searchSimilarProducts_sends_both_witness:
  "''http://example.com/shoe.jpg'' \<noteq> []
   \<and> truthy_string (uploadedImage bothState)
   \<and> uploadedFile bothState = Some pngFile
   \<and> imageUrl bothState = Some ''http://example.com/shoe.jpg''
   \<and> map (map fst) (map body (requests (handleSearch localApi offline bothState)))
       = [[''file'', ''image_url'', ''top_k'', ''similarity_threshold'']]"
proof -
  have h: "''http://example.com/shoe.jpg'' \<noteq> []"
    by simp
  have st: "truthy_string (uploadedImage bothState) \<and> uploadedFile bothState = Some pngFile
            \<and> imageUrl bothState = Some ''http://example.com/shoe.jpg''"
    by (simp add: bothState_def initial_def truthy_string_def)
  have r: "requests bothState = []"
    by (simp add: bothState_def initial_def)
  from searchSimilarProducts_sends_both [OF h, of localApi offline pngFile 11 0 bothState] st
  have "requests (handleSearch localApi offline bothState)
          = requests bothState
            @ [fst (searchSimilarProducts localApi offline (Some pngFile)
                      (Some ''http://example.com/shoe.jpg'') (Some 11) (Some 0.0))]"
    by blast
  then show ?thesis
    using st by (simp add: r searchSimilarProducts_def Let_def)
qed

subsection \<open>The threshold filter\<close>

text \<open>
  C1, as the code has it. The filtered list holds exactly the search results whose
  effective similarity is at least the threshold and whose category passes the
  category selection. The effective similarity is \<open>similarity_percentage\<close> when that is
  present and not zero, else \<open>similarity\<close> when that is present and not zero, else
  zero; the category passes when nothing is selected, when \<open>All\<close> is selected or when
  the category of the product is selected. For two thresholds \<open>t1 < t2\<close> on the same
  results and the same selection, the results for \<open>t2\<close> are among the results for \<open>t1\<close>;
  they are the results for \<open>t1\<close> filtered once more.
\<close>

theorem filteredResults_threshold:
  "set (filteredResults found t sel)
     = {p \<in> set found.
          or_zero (or_number (similarity_percentage p) (similarity p)) \<ge> t
          \<and> meetsCategory sel p}
   \<and> (t1 < t2 \<longrightarrow>
        set (filteredResults found t2 sel) \<subseteq> set (filteredResults found t1 sel)
        \<and> filteredResults found t2 sel
            = filter (meetsThreshold t2) (filteredResults found t1 sel))"
proof (intro conjI impI)
  show "set (filteredResults found t sel)
     = {p \<in> set found.
          or_zero (or_number (similarity_percentage p) (similarity p)) \<ge> t
          \<and> meetsCategory sel p}"
    by (auto simp: filteredResults_def meetsThreshold_def)
next
  assume lt: "t1 < t2"
  have m: "meetsThreshold t2 p \<Longrightarrow> meetsThreshold t1 p" for p
    using lt by (simp add: meetsThreshold_def)
  show "set (filteredResults found t2 sel) \<subseteq> set (filteredResults found t1 sel)"
    using m by (auto simp: filteredResults_def)
  show "filteredResults found t2 sel = filter (meetsThreshold t2) (filteredResults found t1 sel)"
    unfolding filteredResults_def filter_filter
    by (rule filter_cong) (use m in auto)
qed

text \<open>
  The wording of the specification fails in both directions. With no category selected and
  the threshold at 50, a result with similarity 0.9 (and percentage 90) is kept, though
  0.9 is below 50: the filter compares the percentage. With the threshold at 0.5 and
  the category \<open>Bags\<close> selected, the same result, a pair of shoes, is discarded, though
  its similarity is not below the threshold.
\<close>

theorem filteredResults_similarity_counterexample:
  "filteredResults [shoes90] 50 [] = [shoes90]
   \<and> similarity shoes90 = Some 0.9 \<and> (0.9 :: number) < 50
   \<and> filteredResults [shoes90] 0.5 [''Bags''] = []
   \<and> (0.9 :: number) \<ge> 0.5"
  by (simp add: filter_defs sample_defs)

theorem filteredResults_threshold_witness:
  "(50 :: number) < 75
   \<and> filteredResults [shoes90, bag60] 75 [] = [shoes90]
   \<and> filteredResults [shoes90, bag60] 50 [] = [shoes90, bag60]
   \<and> set [shoes90] \<subseteq> set [shoes90, bag60]"
proof -
  have a: "filteredResults [shoes90, bag60] 75 [] = [shoes90]"
    by (simp add: filter_defs sample_defs)
  have b: "filteredResults [shoes90, bag60] 50 [] = [shoes90, bag60]"
    by (simp add: filter_defs sample_defs)
  have lt: "(50 :: number) < 75"
    by simp
  from filteredResults_threshold [of "[shoes90, bag60]" 50 "[]" 50 75] lt
  have "set (filteredResults [shoes90, bag60] 75 [])
          \<subseteq> set (filteredResults [shoes90, bag60] 50 [])"
    by blast
  then show ?thesis
    using a b lt by simp
qed


subsection \<open>The two sources of the matcher\<close>

lemma inv_initial: "sources_inv initial"
  by (simp add: sources_inv_def initial_def)

lemma inv_handleImageUpload: "sources_inv s \<Longrightarrow> sources_inv (handleImageUpload img fresh s)"
  by (cases img)
     (simp_all add: sources_inv_def handleImageUpload_def Let_def truthy_string_def
        URL_createObjectURL_def)

lemma inv_handleSearch:
  assumes "sources_inv s"
  shows "sources_inv (handleSearch api fetch s)"
proof -
  have "one_source (fst (searchSimilarProducts api fetch (uploadedFile s)
                           (or_undefined (imageUrl s)) (Some 11) (Some 0.0)))"
    using assms
    by (cases "uploadedFile s")
       (simp_all add: one_source_def has_file_iff has_image_url_iff sources_inv_def)
  with assms show ?thesis
    by (cases "uploadedFile s")
       (simp_all add: sources_inv_def sources_handleSearch requests_handleSearch)
qed

lemma inv_step: "sources_inv s \<Longrightarrow> sources_inv (step api e s)"
proof (cases e)
  case (ImageUpload img fresh)
  assume "sources_inv s"
  with ImageUpload show ?thesis by (simp add: inv_handleImageUpload)
next
  case (Search fetch)
  assume "sources_inv s"
  with Search show ?thesis by (simp add: inv_handleSearch)
next
  case (CategoriesLoaded cs)
  assume "sources_inv s"
  with CategoriesLoaded show ?thesis
    by (cases cs) (simp_all add: sources_inv_def split: option.splits)
qed (simp_all add: sources_inv_def handleCategoryToggle_def handleClearFilters_def Let_def
       split: option.splits)

lemma inv_run: "sources_inv s \<Longrightarrow> sources_inv (run api es s)"
  by (induction es arbitrary: s) (simp_all add: inv_step)

text \<open>
  C9. An upload of a URL stores the URL and clears the stored file, an upload of a
  file stores the file and clears the stored URL, so after every upload exactly one of
  the two is set. In every state that the component reaches from its initial state,
  \<open>uploadedFile\<close> and \<open>imageUrl\<close> are never both set, and no request that a search has
  sent carries both a \<open>file\<close> and an \<open>image_url\<close> entry.
\<close>

theorem upload_sources_exclusive:
  "uploadedFile (handleImageUpload (ImageString u) fresh s) = None
   \<and> imageUrl (handleImageUpload (ImageString u) fresh s) = Some u
   \<and> uploadedFile (handleImageUpload (ImageFile f) fresh s) = Some f
   \<and> imageUrl (handleImageUpload (ImageFile f) fresh s) = None
   \<and> (uploadedFile (handleImageUpload img fresh s) = None)
       \<noteq> (imageUrl (handleImageUpload img fresh s) = None)
   \<and> \<not> (uploadedFile (run api es initial) \<noteq> None \<and> imageUrl (run api es initial) \<noteq> None)
   \<and> (\<forall>req \<in> set (requests (run api es initial)).
         \<not> (''file'' \<in> set (map fst (body req)) \<and> ''image_url'' \<in> set (map fst (body req))))"
proof (intro conjI)
  show "(uploadedFile (handleImageUpload img fresh s) = None)
     \<noteq> (imageUrl (handleImageUpload img fresh s) = None)"
    by (cases img) (simp_all add: handleImageUpload_def Let_def)
  have i: "sources_inv (run api es initial)"
    by (rule inv_run) (rule inv_initial)
  then show "\<not> (uploadedFile (run api es initial) \<noteq> None \<and> imageUrl (run api es initial) \<noteq> None)"
    by (cases "uploadedFile (run api es initial)") (simp_all add: sources_inv_def)
  from i show "\<forall>req \<in> set (requests (run api es initial)).
         \<not> (''file'' \<in> set (map fst (body req)) \<and> ''image_url'' \<in> set (map fst (body req)))"
    unfolding sources_inv_def list_all_iff one_source_def has_field_def by blast
qed (simp_all add: handleImageUpload_def Let_def)

theorem upload_sources_exclusive_witness:
  "fileRequest \<in> set (requests (run localApi sampleRun initial))
   \<and> ''file'' \<in> set (map fst (body fileRequest))
   \<and> ''image_url'' \<notin> set (map fst (body fileRequest))"
proof -
  have m: "fileRequest \<in> set (requests (run localApi sampleRun initial))"
    by (simp add: sampleRun_def matcher_defs sample_defs fileRequest_def)
  have f: "''file'' \<in> set (map fst (body fileRequest))"
    by (simp add: fileRequest_def)
  from upload_sources_exclusive [of "[]" "[]" initial pngFile "ImageFile pngFile" localApi
      sampleRun] m
  have "\<not> (''file'' \<in> set (map fst (body fileRequest))
           \<and> ''image_url'' \<in> set (map fst (body fileRequest)))"
    by blast
  with m f show ?thesis
    by blast
qed

text \<open>
  C3. In every state that the component reaches, a search with neither a stored file
  nor a (non-empty) stored URL fails with the validation error reported to the user,
  the destructive toast \<open>No image selected\<close>, and changes nothing else: in particular
  no request is sent, the search function of the API client is not called.
\<close>

theorem handleSearch_without_image:
  assumes "s = run api es initial"
    and "uploadedFile s = None" and "\<not> truthy_string (imageUrl s)"
  shows "handleSearch api fetch s
           = s\<lparr>toasts := toasts s @
                [\<lparr>title = ''No image selected'',
                  description = ''Please upload an image to search for similar products'',
                  variant = Some ''destructive''\<rparr>]\<rparr>
         \<and> requests (handleSearch api fetch s) = requests s"
proof -
  have "sources_inv s"
    unfolding assms(1) by (rule inv_run) (rule inv_initial)
  with assms(2) have "uploadedImage s = imageUrl s"
    by (simp add: sources_inv_def)
  with assms(3) have "\<not> truthy_string (uploadedImage s)"
    by simp
  then show ?thesis
    by (simp add: handleSearch_def)
qed

theorem handleSearch_without_image_witness:
  "uploadedFile (run localApi emptyUrlRun initial) = None
   \<and> \<not> truthy_string (imageUrl (run localApi emptyUrlRun initial))
   \<and> length (requests (run localApi emptyUrlRun initial)) = 1
   \<and> requests (handleSearch localApi offline (run localApi emptyUrlRun initial))
       = requests (run localApi emptyUrlRun initial)
   \<and> map title (toasts (handleSearch localApi offline (run localApi emptyUrlRun initial)))
       = [''Searching...'', ''Search failed'', ''No image selected'']"
proof -
  have a: "uploadedFile (run localApi emptyUrlRun initial) = None"
    by (simp add: emptyUrlRun_def matcher_defs sample_defs)
  have b: "\<not> truthy_string (imageUrl (run localApi emptyUrlRun initial))"
    by (simp add: emptyUrlRun_def matcher_defs sample_defs)
  have d: "map title (toasts (run localApi emptyUrlRun initial))
             = [''Searching...'', ''Search failed'']
           \<and> length (requests (run localApi emptyUrlRun initial)) = 1"
    by (simp add: emptyUrlRun_def matcher_defs sample_defs)
  from handleSearch_without_image [OF refl a b, of offline] d show ?thesis
    using a b by simp
qed


subsection \<open>The uploader\<close>

text \<open>
  C6, as the code has it. A file whose content type does not start with \<open>image/\<close> is
  rejected with the \<open>Invalid file type\<close> error and is not handed on for search. A file
  whose content type starts with \<open>image/\<close> and whose size is at most 10 MB is accepted,
  whatever the image format: JPEG, PNG and WebP files within the size limit are
  accepted, and so are other image types. An image of more than 10 MB is rejected with
  the \<open>File too large\<close> error.
\<close>

theorem handleFiles_image_types:
  "(\<not> startsWith (file_type f) ''image/'' \<longrightarrow>
      handleFiles (f # fs) fresh u
        = (u, [Toast \<lparr>title = ''Invalid file type'',
                       description = ''Please upload an image file'',
                       variant = Some ''destructive''\<rparr>]))
   \<and> (startsWith (file_type f) ''image/'' \<and> file_size f \<le> 10 * 1024 * 1024 \<longrightarrow>
      handleFiles (f # fs) fresh u
        = (u\<lparr>previewUrl := URL_createObjectURL fresh\<rparr>, [OnImageUpload (ImageFile f)]))
   \<and> (file_type f \<in> {''image/jpeg'', ''image/png'', ''image/webp''}
        \<and> file_size f \<le> 10 * 1024 * 1024 \<longrightarrow>
      snd (handleFiles (f # fs) fresh u) = [OnImageUpload (ImageFile f)])
   \<and> (startsWith (file_type f) ''image/'' \<and> file_size f > 10 * 1024 * 1024 \<longrightarrow>
      handleFiles (f # fs) fresh u
        = (u, [Toast \<lparr>title = ''File too large'',
                       description = ''Please upload an image smaller than 10MB'',
                       variant = Some ''destructive''\<rparr>]))"
  by (auto simp: handleFiles_def startsWith_def)

text \<open>
  The wording of the specification fails: a GIF is neither JPEG, PNG nor WebP, and the
  uploader accepts it and hands it on.
\<close>

theorem handleFiles_gif_counterexample:
  "file_type gifFile \<notin> {''image/jpeg'', ''image/png'', ''image/webp''}
   \<and> snd (handleFiles [gifFile] ''localhost/1'' idle) = [OnImageUpload (ImageFile gifFile)]"
  by (simp add: handleFiles_def gifFile_def startsWith_def)

theorem handleFiles_image_types_witness:
  "\<not> startsWith (file_type pdfFile) ''image/''
   \<and> snd (handleFiles [pdfFile] ''localhost/1'' idle)
       = [Toast \<lparr>title = ''Invalid file type'',
                       description = ''Please upload an image file'',
                       variant = Some ''destructive''\<rparr>]
   \<and> startsWith (file_type gifFile) ''image/'' \<and> file_size gifFile \<le> 10 * 1024 * 1024
   \<and> fst (handleFiles [gifFile] ''localhost/1'' idle)
       = idle\<lparr>previewUrl := URL_createObjectURL ''localhost/1''\<rparr>
   \<and> file_type pngFile \<in> {''image/jpeg'', ''image/png'', ''image/webp''}
   \<and> file_size pngFile \<le> 10 * 1024 * 1024
   \<and> snd (handleFiles [pngFile] ''localhost/1'' idle) = [OnImageUpload (ImageFile pngFile)]
   \<and> startsWith (file_type hugePng) ''image/'' \<and> file_size hugePng > 10 * 1024 * 1024
   \<and> snd (handleFiles [hugePng] ''localhost/1'' idle)
       = [Toast \<lparr>title = ''File too large'',
                       description = ''Please upload an image smaller than 10MB'',
                       variant = Some ''destructive''\<rparr>]"
proof -
  have a: "\<not> startsWith (file_type pdfFile) ''image/''"
    by (simp add: pdfFile_def startsWith_def)
  have b: "startsWith (file_type gifFile) ''image/'' \<and> file_size gifFile \<le> 10 * 1024 * 1024"
    by (simp add: gifFile_def startsWith_def)
  have d: "file_type pngFile \<in> {''image/jpeg'', ''image/png'', ''image/webp''}
           \<and> file_size pngFile \<le> 10 * 1024 * 1024"
    by (simp add: pngFile_def)
  have e: "startsWith (file_type hugePng) ''image/'' \<and> file_size hugePng > 10 * 1024 * 1024"
    by (simp add: hugePng_def startsWith_def)
  from handleFiles_image_types [of pdfFile "[]" "''localhost/1''" idle] a
  have r1: "snd (handleFiles [pdfFile] ''localhost/1'' idle)
       = [Toast \<lparr>title = ''Invalid file type'',
                       description = ''Please upload an image file'',
                       variant = Some ''destructive''\<rparr>]"
    by simp
  from handleFiles_image_types [of gifFile "[]" "''localhost/1''" idle] b
  have r2: "fst (handleFiles [gifFile] ''localhost/1'' idle)
              = idle\<lparr>previewUrl := URL_createObjectURL ''localhost/1''\<rparr>"
    by simp
  from handleFiles_image_types [of pngFile "[]" "''localhost/1''" idle] d
  have r3: "snd (handleFiles [pngFile] ''localhost/1'' idle) = [OnImageUpload (ImageFile pngFile)]"
    by blast
  from handleFiles_image_types [of hugePng "[]" "''localhost/1''" idle] e
  have r4: "snd (handleFiles [hugePng] ''localhost/1'' idle)
       = [Toast \<lparr>title = ''File too large'',
                       description = ''Please upload an image smaller than 10MB'',
                       variant = Some ''destructive''\<rparr>]"
    by simp
  from a b d e r1 r2 r3 r4 show ?thesis
    by blast
qed


subsection \<open>The product card\<close>

lemma Math_round_near: "\<bar>real_of_int (Math_round x) - x\<bar> \<le> 1 / 2"
  using of_int_round_abs_le [of x] by (simp add: Math_round_def round_def)

lemma Math_round_half: "Math_round (of_int k + 1 / 2) = k + 1"
  by (simp add: Math_round_def)

lemma round_half_even_near: "\<bar>real_of_int (round_half_even y) - y\<bar> \<le> 1 / 2"
  unfolding round_half_even_def Let_def by (auto; linarith)

lemma pow2_pos: "0 < pow2 e"
  by (simp add: pow2_def)

lemma pow2_mono:
  assumes "a \<le> b"
  shows "pow2 a \<le> pow2 b"
proof -
  have low: "1 / 2 ^ k \<le> (1 :: real)" for k :: nat
    by simp
  have high: "(1 :: real) \<le> 2 ^ k" for k :: nat
    by simp
  consider "0 \<le> a" | "a < 0" "0 \<le> b" | "b < 0"
    by linarith
  then show ?thesis
  proof cases
    case 1
    with assms show ?thesis
      by (simp add: pow2_def power_increasing)
  next
    case 2
    have "1 / 2 ^ nat (- a) \<le> (2 :: real) ^ nat b"
      using low [of "nat (- a)"] high [of "nat b"] by (rule order_trans)
    with 2 show ?thesis
      by (simp add: pow2_def)
  next
    case 3
    with assms have "(2 :: real) ^ nat (- b) \<le> 2 ^ nat (- a)"
      by (intro power_increasing) simp_all
    with 3 assms show ?thesis
      by (simp add: pow2_def frac_le)
  qed
qed

lemma bit_length_le: "n < 2 ^ k \<Longrightarrow> bit_length n \<le> k"
proof (induction k arbitrary: n)
  case 0
  then show ?case by simp
next
  case (Suc k)
  then have "n div 2 < 2 ^ k"
    by simp
  then have "bit_length (n div 2) \<le> k"
    by (rule Suc.IH)
  then show ?case
    by (subst bit_length.simps) simp
qed

lemma binade_small:
  assumes "\<bar>x\<bar> < 128"
  shows "binade x \<le> 6"
proof (cases "1 \<le> \<bar>x\<bar>")
  case True
  from assms have "nat \<lfloor>\<bar>x\<bar>\<rfloor> < 2 ^ 7"
    by (simp add: nat_less_iff floor_less_iff)
  then have "bit_length (nat \<lfloor>\<bar>x\<bar>\<rfloor>) \<le> 7"
    by (rule bit_length_le)
  with True show ?thesis
    by (simp add: binade_def)
next
  case False
  then show ?thesis
    by (simp add: binade_def)
qed

text \<open>
  The binade is the one its definition is meant to find: a number other than zero lies
  between the power of two of its binade and the next one.
\<close>

lemma bit_length_bounds: "0 < n \<Longrightarrow> 2 ^ (bit_length n - 1) \<le> n \<and> n < 2 ^ bit_length n"
proof (induction n rule: bit_length.induct)
  case (1 n)
  show ?case
  proof (cases "n div 2 = 0")
    case True
    with "1.prems" have "n = 1"
      by (simp add: div_eq_0_iff)
    then show ?thesis
      by (simp add: bit_length.simps [of 1] bit_length.simps [of 0])
  next
    case False
    with "1.IH" "1.prems"
    have ih: "2 ^ (bit_length (n div 2) - 1) \<le> n div 2 \<and> n div 2 < 2 ^ bit_length (n div 2)"
      by simp
    from False have pos: "0 < bit_length (n div 2)"
      by (subst bit_length.simps) simp
    have bl: "bit_length n = Suc (bit_length (n div 2))"
      using "1.prems" by (subst bit_length.simps) simp
    from pos have "(2 :: nat) ^ bit_length (n div 2) = 2 * 2 ^ (bit_length (n div 2) - 1)"
      by (cases "bit_length (n div 2)") simp_all
    with ih have "2 ^ bit_length (n div 2) \<le> n"
      by linarith
    moreover from ih have "n < 2 * 2 ^ bit_length (n div 2)"
      by linarith
    ultimately show ?thesis
      by (simp add: bl)
  qed
qed


lemma pow2_nat: "pow2 (int k) = 2 ^ k"
  by (simp add: pow2_def)

lemma pow2_pred: "0 < k \<Longrightarrow> pow2 (int k - 1) = 2 ^ (k - 1)"
  by (cases k) (simp_all add: pow2_def)

lemma pow2_neg: "pow2 (- int k) = 1 / 2 ^ k"
  by (cases k) (simp_all add: pow2_def nat_add_distrib)

lemma pow2_neg_succ:
  assumes "0 < k"
  shows "pow2 (- int k + 1) = 1 / 2 ^ (k - 1)"
proof -
  from assms have "- int k + 1 = - int (k - 1)"
    by simp
  then show ?thesis
    by (simp only: pow2_neg)
qed

lemma bit_length_pos: "0 < n \<Longrightarrow> 0 < bit_length n"
  by (subst bit_length.simps) simp

lemma binade_bounds:
  assumes "x \<noteq> 0"
  shows "pow2 (binade x) \<le> \<bar>x\<bar> \<and> \<bar>x\<bar> < pow2 (binade x + 1)"
proof (cases "1 \<le> \<bar>x\<bar>")
  case True
  define n where "n = nat \<lfloor>\<bar>x\<bar>\<rfloor>"
  define k where "k = bit_length n"
  from True have n: "0 < n"
    by (simp add: n_def)
  have le: "real n \<le> \<bar>x\<bar>" and lt: "\<bar>x\<bar> < real n + 1"
    unfolding n_def using True by linarith+
  from bit_length_bounds [OF n]
  have b: "2 ^ (k - 1) \<le> n" "n + 1 \<le> 2 ^ k"
    by (simp_all add: k_def)
  from n have pos: "0 < k"
    unfolding k_def by (rule bit_length_pos)
  have "real (2 ^ (k - 1)) \<le> real n"
    using b(1) by (rule of_nat_mono)
  then have low: "(2 :: real) ^ (k - 1) \<le> real n"
    by simp
  have "real (n + 1) \<le> real (2 ^ k)"
    using b(2) by (rule of_nat_mono)
  then have up: "real n + 1 \<le> 2 ^ k"
    by simp
  have e: "binade x = int k - 1"
    using True by (simp only: binade_def n_def k_def if_True)
  have "pow2 (binade x) = 2 ^ (k - 1)"
    unfolding e using pos by (rule pow2_pred)
  moreover have "pow2 (binade x + 1) = 2 ^ k"
    unfolding e using pow2_nat [of k] by simp
  ultimately show ?thesis
    using le lt low up by linarith
next
  case False
  define y where "y = 1 / \<bar>x\<bar>"
  define m where "m = nat \<lceil>y\<rceil> - 1"
  define k where "k = bit_length m"
  from False assms have x: "0 < \<bar>x\<bar>" "\<bar>x\<bar> < 1"
    by simp_all
  then have y: "1 < y"
    by (simp add: y_def)
  then have c: "2 \<le> \<lceil>y\<rceil>"
    by linarith
  then have m: "0 < m" and mc: "int m = \<lceil>y\<rceil> - 1"
    unfolding m_def by linarith+
  from bit_length_bounds [OF m]
  have b: "2 ^ (k - 1) \<le> m" "m + 1 \<le> 2 ^ k"
    by (simp_all add: k_def)
  from m have pos: "0 < k"
    unfolding k_def by (rule bit_length_pos)
  from mc have "real_of_int (int m) = real_of_int (\<lceil>y\<rceil> - 1)"
    by (rule arg_cong)
  then have rm: "real m = real_of_int \<lceil>y\<rceil> - 1"
    by simp
  have "real (m + 1) \<le> real (2 ^ k)"
    using b(2) by (rule of_nat_mono)
  then have "real m + 1 \<le> 2 ^ k"
    by simp
  moreover have "y \<le> real m + 1"
    unfolding rm by linarith
  ultimately have up: "y \<le> 2 ^ k"
    by linarith
  have "real (2 ^ (k - 1)) \<le> real m"
    using b(1) by (rule of_nat_mono)
  then have "(2 :: real) ^ (k - 1) \<le> real m"
    by simp
  moreover have "real m < y"
    unfolding rm by linarith
  ultimately have low: "2 ^ (k - 1) < y"
    by linarith
  have e: "binade x = - int k"
    using False by (simp only: binade_def k_def m_def y_def if_False)
  have inv: "\<bar>x\<bar> = 1 / y"
    using x by (simp add: y_def)
  have p1: "(0 :: real) < 2 ^ k" and p2: "(0 :: real) < 2 ^ (k - 1)"
    by simp_all
  from up y p1 have "1 / 2 ^ k \<le> 1 / y"
    by (intro divide_left_mono) simp_all
  moreover from low y p2 have "1 / y < 1 / 2 ^ (k - 1)"
    by (intro divide_strict_left_mono) simp_all
  moreover have "pow2 (binade x) = 1 / 2 ^ k"
    unfolding e by (rule pow2_neg)
  moreover have "pow2 (binade x + 1) = 1 / 2 ^ (k - 1)"
    unfolding e using pos by (rule pow2_neg_succ)
  ultimately show ?thesis
    unfolding inv by simp
qed

text \<open>Rounding to a double moves a number by at most half the spacing of its binade.\<close>

lemma double_round_error:
  "\<bar>double_round x - x\<bar> \<le> pow2 (max (binade x) (- 1022) - 52) / 2"
proof -
  define u where "u = pow2 (max (binade x) (- 1022) - 52)"
  have u: "0 < u"
    by (simp add: u_def pow2_pos)
  have "\<bar>real_of_int (round_half_even (x / u)) * u - x\<bar>
          = \<bar>real_of_int (round_half_even (x / u)) - x / u\<bar> * u"
    using u by (simp add: abs_mult_pos' [symmetric] field_simps)
  also have "\<dots> \<le> 1 / 2 * u"
    using round_half_even_near [of "x / u"] u by (intro mult_right_mono) simp_all
  finally show ?thesis
    by (simp add: double_round_def Let_def u_def)
qed

lemma double_round_error_small:
  assumes "\<bar>x\<bar> < 128"
  shows "\<bar>double_round x - x\<bar> \<le> 1 / 2 ^ 47"
proof -
  from assms have "max (binade x) (- 1022) - 52 \<le> - 46"
    using binade_small [of x] by simp
  then have "pow2 (max (binade x) (- 1022) - 52) \<le> pow2 (- 46)"
    by (rule pow2_mono)
  with double_round_error [of x] show ?thesis
    by (simp add: pow2_def)
qed

text \<open>
  The badge of a card, when there is one, shows the derived percentage.
\<close>

lemma similarityBadge_shows:
  "similarityBadge p show_arg = Badge cls n \<Longrightarrow> n = similarityPercentage p"
  by (simp add: similarityBadge_def Let_def split: if_splits option.splits)

text \<open>
  C8, as the code has it. For a search result that carries a similarity score \<open>s\<close>, the
  percentage derived for display is \<open>Math.round\<close> of the product \<open>s * 100\<close> as the
  doubles give it: the integer nearest to that rounded product, a half going up. For
  a score in [-1, 1] it lies between -100 and 100 and within \<open>1/2 + 2^(-47)\<close> of the
  exact product; it need not be the integer nearest to the exact product. A card that
  shows similarity puts the percentage on the badge when the score is not zero. For a
  result without a similarity score the derived percentage is 0, and the card shows
  no badge.
\<close>

theorem similarityPercentage_rounds:
  "(similarity p = Some s \<longrightarrow>
      similarityPercentage p = Math_round (times_double s 100)
      \<and> \<bar>real_of_int (similarityPercentage p) - times_double s 100\<bar> \<le> 1 / 2
      \<and> (times_double s 100 = of_int k + 1 / 2 \<longrightarrow> similarityPercentage p = k + 1)
      \<and> (- 1 \<le> s \<and> s \<le> 1 \<longrightarrow>
           \<bar>real_of_int (similarityPercentage p) - s * 100\<bar> \<le> 1 / 2 + 1 / 2 ^ 47
           \<and> - 100 \<le> similarityPercentage p \<and> similarityPercentage p \<le> 100)
      \<and> (s \<noteq> 0 \<longrightarrow>
           similarityBadge p (Some True)
             = Badge (getSimilarityColor (Math_round (times_double s 100)))
                 (Math_round (times_double s 100))))
   \<and> (similarity p = None \<longrightarrow>
        similarityPercentage p = 0 \<and> similarityBadge p show_arg = Nothing)"
proof (intro conjI impI)
  assume h: "similarity p = Some s"
  have zero: "times_double 0 100 = 0"
    by (simp add: double_defs)
  from h show e: "similarityPercentage p = Math_round (times_double s 100)"
    by (cases "s = 0") (simp_all add: similarityPercentage_def truthy_number_def zero Math_round_def)
  from e show near: "\<bar>real_of_int (similarityPercentage p) - times_double s 100\<bar> \<le> 1 / 2"
    using Math_round_near [of "times_double s 100"] by simp
  {
    assume "times_double s 100 = of_int k + 1 / 2"
    with e show "similarityPercentage p = k + 1"
      by (simp add: Math_round_half)
  }
  {
    assume "s \<noteq> 0"
    with h e show "similarityBadge p (Some True)
             = Badge (getSimilarityColor (Math_round (times_double s 100)))
                 (Math_round (times_double s 100))"
      by (simp add: similarityBadge_def)
  }
  assume b: "- 1 \<le> s \<and> s \<le> 1"
  then have "\<bar>s * 100\<bar> < 128"
    by (simp add: abs_less_iff)
  then have err: "\<bar>times_double s 100 - s * 100\<bar> \<le> 1 / 2 ^ 47"
    unfolding times_double_def by (rule double_round_error_small)
  from near err
  show far: "\<bar>real_of_int (similarityPercentage p) - s * 100\<bar> \<le> 1 / 2 + 1 / 2 ^ 47"
    by linarith
  have range: "- 100 \<le> s * 100" "s * 100 \<le> 100"
    using b by simp_all
  have eps: "(1 :: real) / 2 ^ 47 < 1 / 2"
    by simp
  have "real_of_int (similarityPercentage p) < 101"
    using far range eps by linarith
  then show "similarityPercentage p \<le> 100"
    by linarith
  have "- 101 < real_of_int (similarityPercentage p)"
    using far range eps by linarith
  then show "- 100 \<le> similarityPercentage p"
    by linarith
next
  assume n: "similarity p = None"
  then show "similarityPercentage p = 0"
    by (simp add: similarityPercentage_def truthy_number_def)
  from n show "similarityBadge p show_arg = Nothing"
    by (simp add: similarityBadge_def Let_def)
qed

text \<open>
  The wording of the specification fails: the score that \<open>0.745\<close> parses to is a
  double a little below 0.745; its exact product with 100 is below 74.5, so that 74 is
  the nearest integer, but the product of doubles is 74.5 and the card derives 75.
\<close>

theorem similarityPercentage_half_counterexample:
  "double_round 0.745 = 6710363444782039 / 2 ^ 53
   \<and> similarity bag745 = Some (6710363444782039 / 2 ^ 53)
   \<and> similarityPercentage bag745 = 75
   \<and> \<bar>real_of_int 74 - 6710363444782039 / 2 ^ 53 * 100\<bar> < 1 / 2
   \<and> 1 / 2 < \<bar>real_of_int 75 - 6710363444782039 / 2 ^ 53 * 100\<bar>"
proof -
  have a: "double_round 0.745 = 6710363444782039 / 2 ^ 53"
    by (simp add: double_defs)
  have b: "times_double (6710363444782039 / 2 ^ 53) 100 = 149 / 2"
    by (simp add: double_defs)
  have d1: "similarityPercentage bag745
              = Math_round (times_double (6710363444782039 / 2 ^ 53) 100)"
    by (simp add: similarityPercentage_def truthy_number_def bag745_def)
  have d2: "Math_round (149 / 2) = 75"
    by (simp add: Math_round_def)
  have d: "similarityPercentage bag745 = 75"
    by (simp only: d1 b d2)
  from a d show ?thesis
    by (simp add: bag745_def)
qed

theorem similarityPercentage_rounds_witness:
  "similarity bag75 = Some 0.75 \<and> - 1 \<le> (0.75 :: number) \<and> (0.75 :: number) \<le> 1
   \<and> (0.75 :: number) \<noteq> 0
   \<and> similarityPercentage bag75 = 75
   \<and> similarityBadge bag75 (Some True) = Badge ''bg-warning text-warning-foreground'' 75
   \<and> similarity bagEighth = Some 0.125 \<and> times_double 0.125 100 = of_int 12 + 1 / 2
   \<and> similarityPercentage bagEighth = 13
   \<and> similarity bagMinusEighth = Some (- 0.125)
   \<and> times_double (- 0.125) 100 = of_int (- 13) + 1 / 2
   \<and> similarityPercentage bagMinusEighth = - 12
   \<and> similarity plainBag = None \<and> similarityPercentage plainBag = 0"
proof -
  have a: "similarity bag75 = Some 0.75"
    by (simp add: bag75_def)
  have b: "similarity plainBag = None"
    by (simp add: sample_defs)
  have r: "Math_round (times_double 0.75 100) = 75"
    by (simp add: double_defs Math_round_def)
  from similarityPercentage_rounds [of bag75 "0.75"] a r
  have x: "similarityPercentage bag75 = 75
           \<and> similarityBadge bag75 (Some True) = Badge (getSimilarityColor 75) 75"
    by simp
  from similarityPercentage_rounds [of plainBag 0] b
  have y: "similarityPercentage plainBag = 0"
    by simp
  have e: "similarity bagEighth = Some 0.125"
    by (simp add: bagEighth_def)
  have eh: "times_double 0.125 100 = of_int 12 + 1 / 2"
    by (simp add: double_defs)
  from similarityPercentage_rounds [of bagEighth "0.125" 12] e eh
  have z: "similarityPercentage bagEighth = 13"
    by simp
  have m: "similarity bagMinusEighth = Some (- 0.125)"
    by (simp add: bagMinusEighth_def)
  have mh: "times_double (- 0.125) 100 = of_int (- 13) + 1 / 2"
    by (simp add: double_defs)
  from similarityPercentage_rounds [of bagMinusEighth "- 0.125" "- 13"] m mh
  have w: "similarityPercentage bagMinusEighth = - 12"
    by simp
  from a b x y e eh z m mh w show ?thesis
    by (simp add: getSimilarityColor_def)
qed


subsection \<open>The mock search results\<close>

lemma js_insert_insort_key:
  "js_insert (\<lambda>a b. k b - k a) x ys = insort_key (\<lambda>p. - k p) x ys"
  by (induction ys) simp_all

lemma js_sort_sort_key: "js_sort (\<lambda>a b. k b - k a) xs = sort_key (\<lambda>p. - k p) xs"
  by (induction xs) (simp_all add: js_insert_insort_key sort_key_def)

lemma bySimilarityDesc_score: "bySimilarityDesc = (\<lambda>a b. score b - score a)"
  by (simp add: bySimilarityDesc_def score_def fun_eq_iff)

lemma map_random_pid:
  "map pid (fst (map_random withRandomSimilarity xs g)) = map pid xs"
  by (induction xs arbitrary: g)
     (simp_all add: Let_def case_prod_beta withRandomSimilarity_def)

text \<open>The outcome of the map depends on as many draws as the list has elements.\<close>

lemma map_random_agree:
  "(\<forall>i<length xs. g1 i = g2 i) \<Longrightarrow> fst (map_random f xs g1) = fst (map_random f xs g2)"
proof (induction xs arbitrary: g1 g2)
  case Nil
  show ?case by simp
next
  case (Cons x xs)
  have "fst (map_random f xs (\<lambda>n. g1 (Suc n))) = fst (map_random f xs (\<lambda>n. g2 (Suc n)))"
    by (rule Cons.IH) (use Cons.prems in auto)
  moreover have "g1 0 = g2 0"
    using Cons.prems by simp
  ultimately show ?case
    by (simp add: Let_def case_prod_beta Math_random_def)
qed

text \<open>
  If the elements of a list that satisfy \<open>Q\<close> are in \<open>R\<close>-order among themselves, then
  any two of them are, the earlier one with the later one.
\<close>

lemma sorted_wrt_filter_nth:
  assumes "sorted_wrt R (filter Q ps)" and "m < n" and "n < length ps"
    and "Q (ps ! m)" and "Q (ps ! n)"
  shows "R (ps ! m) (ps ! n)"
  using assms
proof (induction ps arbitrary: m n)
  case Nil
  then show ?case by simp
next
  case (Cons q ps)
  from Cons.prems(2) obtain k where n: "n = Suc k"
    by (cases n) simp_all
  from Cons.prems(1) have rest: "sorted_wrt R (filter Q ps)"
    by (simp split: if_splits)
  show ?case
  proof (cases m)
    case 0
    with Cons.prems(4) have "Q q" by simp
    with Cons.prems(1) have "\<forall>y \<in> set (filter Q ps). R q y" by simp
    moreover have "ps ! k \<in> set (filter Q ps)"
      using Cons.prems(3,5) n by simp
    ultimately show ?thesis using 0 n by simp
  next
    case (Suc l)
    with Cons.IH [OF rest, of l k] Cons.prems n show ?thesis by simp
  qed
qed

lemma catalog_order:
  "sorted_wrt (\<lambda>x y. index_of x (map pid mockProducts) < index_of y (map pid mockProducts))
     (map pid mockProducts)"
  by (simp add: mockProducts_def mockProduct_def)

lemma map_random_map2:
  "fst (map_random f xs g) = map2 f xs (map g [0..<length xs])"
proof (induction xs arbitrary: g)
  case Nil
  show ?case by simp
next
  case (Cons x xs)
  have "fst (map_random f (x # xs) g) = f x (g 0) # fst (map_random f xs (\<lambda>n. g (Suc n)))"
    by (simp add: Let_def case_prod_beta Math_random_def)
  also have "\<dots> = f x (g 0) # map2 f xs (map (\<lambda>n. g (Suc n)) [0..<length xs])"
    by (simp only: Cons.IH)
  also have "\<dots> = map2 f (x # xs) (map g [0..<length (x # xs)])"
    by (simp add: map_upt_Suc del: upt_Suc)
  finally show ?case .
qed

lemma scored_catalog: "fst (map_random withRandomSimilarity mockProducts g) = scoredCatalog g"
  by (simp only: scoredCatalog_def map_random_map2)

lemma scored_similarity:
  "p \<in> set (fst (map_random withRandomSimilarity xs g)) \<Longrightarrow> \<exists>v. similarity p = Some v"
  by (induction xs arbitrary: g)
     (auto simp: Let_def case_prod_beta withRandomSimilarity_def)

lemma scored_indices:
  "map catalogIndex (fst (map_random withRandomSimilarity mockProducts g)) = [0..<8]"
proof -
  have "map catalogIndex (fst (map_random withRandomSimilarity mockProducts g))
          = map (\<lambda>i. index_of i (map pid mockProducts))
              (map pid (fst (map_random withRandomSimilarity mockProducts g)))"
    by (simp add: catalogIndex_def comp_def)
  also have "\<dots> = map (\<lambda>i. index_of i (map pid mockProducts)) (map pid mockProducts)"
    by (simp only: map_random_pid)
  also have "\<dots> = [0..<8]"
    by (simp add: mockProducts_def mockProduct_def upt_rec)
  finally show ?thesis .
qed

lemma scored_catalog_order:
  "sorted_wrt (\<lambda>a b. catalogIndex a < catalogIndex b)
     (fst (map_random withRandomSimilarity mockProducts g))"
  using catalog_order
  unfolding catalogIndex_def map_random_pid [of mockProducts g, symmetric]
  by (simp add: sorted_wrt_map)

text \<open>
  A list of scored products in descending order of score, with equal scores in the
  order of the catalog, is in strictly ascending order of rank.
\<close>

lemma ranked_strict:
  assumes sub: "set ys \<subseteq> set (fst (map_random withRandomSimilarity mockProducts g))"
    and desc: "sorted_wrt (\<lambda>a b. or_zero (similarity a) \<ge> or_zero (similarity b)) ys"
    and ties: "\<forall>i j. i < j \<and> j < length ys \<and> similarity (ys ! i) = similarity (ys ! j)
                 \<longrightarrow> catalogIndex (ys ! i) < catalogIndex (ys ! j)"
  shows "sorted_wrt (<) (map rank ys)"
proof -
  have "rank (ys ! i) < rank (ys ! j)" if "i < j" "j < length ys" for i j
  proof -
    from that sub obtain v w where v: "similarity (ys ! i) = Some v"
      and w: "similarity (ys ! j) = Some w"
      by (metis scored_similarity nth_mem subsetD order.strict_trans)
    from desc that have ge: "score (ys ! j) \<le> score (ys ! i)"
      by (simp add: sorted_wrt_iff_nth_less score_def)
    show ?thesis
    proof (cases "score (ys ! j) = score (ys ! i)")
      case True
      with v w have "similarity (ys ! i) = similarity (ys ! j)"
        by (auto simp: score_def or_zero_def split: if_splits)
      with ties that have "catalogIndex (ys ! i) < catalogIndex (ys ! j)"
        by blast
      with True show ?thesis
        by (simp add: rank_def less_prod_def)
    next
      case False
      with ge show ?thesis
        by (simp add: rank_def less_prod_def)
    qed
  qed
  then show ?thesis
    by (simp add: sorted_wrt_iff_nth_less)
qed

lemma rank_inj: "inj_on rank (set (fst (map_random withRandomSimilarity mockProducts g)))"
proof -
  have "distinct (map catalogIndex (fst (map_random withRandomSimilarity mockProducts g)))"
    by (simp only: scored_indices distinct_upt)
  then have "inj_on catalogIndex (set (fst (map_random withRandomSimilarity mockProducts g)))"
    by (simp add: distinct_map)
  then show ?thesis
    by (auto simp: inj_on_def rank_def)
qed

text \<open>Two arrangements of the same scored products in ascending order of rank are equal.\<close>

lemma ranked_unique:
  assumes "mset ys = mset zs"
    and "set zs \<subseteq> set (fst (map_random withRandomSimilarity mockProducts g))"
    and "sorted_wrt (<) (map rank ys)" and "sorted_wrt (<) (map rank zs)"
  shows "ys = zs"
proof -
  from assms(1) have s: "set ys = set zs"
    by (rule mset_eq_setD)
  then have "set (map rank ys) = set (map rank zs)"
    by simp
  with assms(3,4) have "map rank ys = map rank zs"
    by (metis strict_sorted_equal)
  moreover have "inj_on rank (set ys \<union> set zs)"
    using rank_inj [of g] assms(2) s by (auto intro: inj_on_subset)
  ultimately show ?thesis
    by (simp add: inj_on_map_eq_map)
qed

text \<open>
  C2, as the code has it. The list that \<open>generateMockSearchResults\<close> produces is the
  scored catalog of the call rearranged: it is in descending order of similarity
  score, and two results with the same similarity are in the order of the catalog,
  the one that comes first in \<open>mockProducts\<close> first. The scores decide the order: the
  list is the only arrangement of the scored catalog with these two properties. The
  scores are the draws of the call, not a function of the query, so the order is
  determined by the draws and not by the query.
\<close>

theorem generateMockSearchResults_sorted_stable:
  "sorted_wrt (\<lambda>a b. or_zero (similarity a) \<ge> or_zero (similarity b))
     (fst (generateMockSearchResults img g))
   \<and> (\<forall>i j. i < j \<and> j < length (fst (generateMockSearchResults img g))
        \<and> similarity (fst (generateMockSearchResults img g) ! i)
            = similarity (fst (generateMockSearchResults img g) ! j)
        \<longrightarrow> catalogIndex (fst (generateMockSearchResults img g) ! i)
              < catalogIndex (fst (generateMockSearchResults img g) ! j))
   \<and> mset (fst (generateMockSearchResults img g)) = mset (scoredCatalog g)
   \<and> (\<forall>ys. mset ys = mset (scoredCatalog g)
        \<and> sorted_wrt (\<lambda>a b. or_zero (similarity a) \<ge> or_zero (similarity b)) ys
        \<and> (\<forall>i j. i < j \<and> j < length ys \<and> similarity (ys ! i) = similarity (ys ! j)
              \<longrightarrow> catalogIndex (ys ! i) < catalogIndex (ys ! j))
        \<longrightarrow> ys = fst (generateMockSearchResults img g))"
proof -
  define scored where "scored = fst (map_random withRandomSimilarity mockProducts g)"
  define found where "found = fst (generateMockSearchResults img g)"
  have found: "found = sort_key (\<lambda>p. - score p) scored"
    by (simp add: found_def scored_def generateMockSearchResults_def Let_def
        bySimilarityDesc_score js_sort_sort_key case_prod_beta)
  have "sorted (map (\<lambda>p. - score p) found)"
    unfolding found by (rule sorted_sort_key)
  then have desc: "sorted_wrt (\<lambda>a b. or_zero (similarity a) \<ge> or_zero (similarity b)) found"
    by (simp add: sorted_wrt_map score_def)
  have cat: "sorted_wrt (\<lambda>a b. catalogIndex a < catalogIndex b) scored"
    unfolding scored_def by (rule scored_catalog_order)
  have stable: "catalogIndex (found ! i) < catalogIndex (found ! j)"
    if "i < j" "j < length found" "similarity (found ! i) = similarity (found ! j)" for i j
  proof -
    let ?P = "\<lambda>p. - score p = - score (found ! i)"
    have "filter ?P found = filter ?P scored"
      unfolding found by (rule sort_key_stable)
    moreover have "sorted_wrt (\<lambda>a b. catalogIndex a < catalogIndex b) (filter ?P scored)"
      using cat by (rule sorted_wrt_filter)
    ultimately have s: "sorted_wrt (\<lambda>a b. catalogIndex a < catalogIndex b) (filter ?P found)"
      by simp
    have pi: "?P (found ! i)" by simp
    have pj: "?P (found ! j)" using that(3) by (simp add: score_def)
    show ?thesis
      by (rule sorted_wrt_filter_nth [where Q = ?P, OF s that(1) that(2) pi pj])
  qed
  have perm: "mset found = mset (scoredCatalog g)"
    unfolding found by (simp add: scored_def scored_catalog)
  have ties: "\<forall>i j. i < j \<and> j < length found \<and> similarity (found ! i) = similarity (found ! j)
                \<longrightarrow> catalogIndex (found ! i) < catalogIndex (found ! j)"
    using stable by blast
  have sub: "set found \<subseteq> set scored"
    unfolding found by simp
  have strict: "sorted_wrt (<) (map rank found)"
    using sub desc ties unfolding scored_def by (rule ranked_strict)
  have unique: "ys = found"
    if "mset ys = mset (scoredCatalog g)"
      and "sorted_wrt (\<lambda>a b. or_zero (similarity a) \<ge> or_zero (similarity b)) ys"
      and "\<forall>i j. i < j \<and> j < length ys \<and> similarity (ys ! i) = similarity (ys ! j)
              \<longrightarrow> catalogIndex (ys ! i) < catalogIndex (ys ! j)" for ys
  proof -
    from that(1) have "set ys = set (scoredCatalog g)"
      by (rule mset_eq_setD)
    then have "set ys \<subseteq> set (fst (map_random withRandomSimilarity mockProducts g))"
      by (simp add: scored_catalog)
    then have "sorted_wrt (<) (map rank ys)"
      using that(2,3) by (rule ranked_strict)
    moreover from that(1) perm have "mset ys = mset found"
      by simp
    ultimately show ?thesis
      using sub strict unfolding scored_def by (intro ranked_unique)
  qed
  from desc ties perm unique show ?thesis
    unfolding found_def by blast
qed

text \<open>
  The wording of the specification fails in its last part: the ordering is not
  deterministic for the same query. Two invocations for the same image, one after the
  other, return the catalog in its own order and then in the reverse order.
\<close>

theorem generateMockSearchResults_order_counterexample:
  "map pid (fst (twoRuns (Some ''blob:localhost/1'') fallingThenRising))
     = map pid mockProducts
   \<and> map pid (snd (twoRuns (Some ''blob:localhost/1'') fallingThenRising))
       = rev (map pid mockProducts)
   \<and> map pid mockProducts \<noteq> rev (map pid mockProducts)"
  by (simp add: mock_defs fallingThenRising_def)

theorem generateMockSearchResults_sorted_stable_witness:
  "(0 :: nat) < 1 \<and> 1 < length (fst (generateMockSearchResults None evenDraws))
   \<and> similarity (fst (generateMockSearchResults None evenDraws) ! 0) = Some 0.8
   \<and> similarity (fst (generateMockSearchResults None evenDraws) ! 1) = Some 0.8
   \<and> catalogIndex (fst (generateMockSearchResults None evenDraws) ! 0)
       < catalogIndex (fst (generateMockSearchResults None evenDraws) ! 1)
   \<and> map pid (fst (generateMockSearchResults None evenDraws)) = map pid mockProducts
   \<and> scoredCatalog evenDraws = fst (generateMockSearchResults None evenDraws)"
proof -
  have l: "1 < length (fst (generateMockSearchResults None evenDraws))"
    by (simp add: mock_defs evenDraws_def)
  have a: "similarity (fst (generateMockSearchResults None evenDraws) ! 0) = Some 0.8"
    by (simp add: mock_defs evenDraws_def)
  have b: "similarity (fst (generateMockSearchResults None evenDraws) ! 1) = Some 0.8"
    by (simp add: mock_defs evenDraws_def)
  have d: "map pid (fst (generateMockSearchResults None evenDraws)) = map pid mockProducts"
    by (simp add: mock_defs evenDraws_def)
  from generateMockSearchResults_sorted_stable [of None evenDraws] l a b
  have t: "catalogIndex (fst (generateMockSearchResults None evenDraws) ! 0)
          < catalogIndex (fst (generateMockSearchResults None evenDraws) ! 1)"
    by (metis zero_less_one)
  have h1: "mset (scoredCatalog evenDraws) = mset (scoredCatalog evenDraws)"
    by simp
  have h2: "sorted_wrt (\<lambda>a b. or_zero (similarity a) \<ge> or_zero (similarity b))
              (scoredCatalog evenDraws)"
    by (simp add: scoredCatalog_def evenDraws_def withRandomSimilarity_def mockProducts_def
        upt_rec or_zero_def)
  have "sorted_wrt (\<lambda>a b. catalogIndex a < catalogIndex b) (scoredCatalog evenDraws)"
    using scored_catalog_order [of evenDraws] by (simp only: scored_catalog)
  then have h3: "\<forall>i j. i < j \<and> j < length (scoredCatalog evenDraws)
                   \<and> similarity (scoredCatalog evenDraws ! i)
                       = similarity (scoredCatalog evenDraws ! j)
                   \<longrightarrow> catalogIndex (scoredCatalog evenDraws ! i)
                         < catalogIndex (scoredCatalog evenDraws ! j)"
    by (simp add: sorted_wrt_iff_nth_less)
  from generateMockSearchResults_sorted_stable [of None evenDraws] h1 h2 h3
  have u: "scoredCatalog evenDraws = fst (generateMockSearchResults None evenDraws)"
    by blast
  from l a b d t u show ?thesis
    by simp
qed

text \<open>
  C5, as the code has it. The scores are random draws, so the results are determined
  by the catalog and by the eight values that \<open>Math.random()\<close> returns during the call,
  not by the query image: two invocations that meet the same eight draws return the
  same list, in order and in scores, whatever image each is given.
\<close>

theorem generateMockSearchResults_same_draws:
  assumes "\<forall>i<8. g1 i = g2 i"
  shows "fst (generateMockSearchResults img1 g1) = fst (generateMockSearchResults img2 g2)"
proof -
  have "length mockProducts = 8"
    by (simp add: mockProducts_def)
  with assms have "fst (map_random withRandomSimilarity mockProducts g1)
                 = fst (map_random withRandomSimilarity mockProducts g2)"
    by (intro map_random_agree) simp
  then show ?thesis
    by (simp add: generateMockSearchResults_def Let_def case_prod_beta)
qed

text \<open>
  The wording of the specification fails: two invocations for the same image and the same
  catalog, one after the other, return different orders (the second is the reverse of
  the first here) and give a product different scores (the product \<open>1\<close> is last with
  0.6 in the first run and first with 0.88 in the second).
\<close>

theorem generateMockSearchResults_two_runs_counterexample:
  "map pid (fst (twoRuns None risingThenFalling))
     = rev (map pid mockProducts)
   \<and> map pid (snd (twoRuns None risingThenFalling))
     = map pid mockProducts
   \<and> similarity (last (fst (twoRuns None risingThenFalling))) = Some 0.6
   \<and> similarity (hd (snd (twoRuns None risingThenFalling))) = Some 0.88
   \<and> fst (twoRuns None risingThenFalling) \<noteq> snd (twoRuns None risingThenFalling)"
proof -
  have a: "map pid (fst (twoRuns None risingThenFalling))
             = rev (map pid mockProducts)"
    by (simp add: mock_defs risingThenFalling_def)
  have b: "map pid (snd (twoRuns None risingThenFalling))
             = map pid mockProducts"
    by (simp add: mock_defs risingThenFalling_def)
  have d: "similarity (last (fst (twoRuns None risingThenFalling))) = Some 0.6"
    by (simp add: mock_defs risingThenFalling_def)
  have e: "similarity (hd (snd (twoRuns None risingThenFalling))) = Some 0.88"
    by (simp add: mock_defs risingThenFalling_def)
  have "rev (map pid mockProducts) \<noteq> map pid mockProducts"
    by (simp add: mockProducts_def mockProduct_def)
  with a b have "fst (twoRuns None risingThenFalling) \<noteq> snd (twoRuns None risingThenFalling)"
    by auto
  with a b d e show ?thesis
    by blast
qed

theorem generateMockSearchResults_same_draws_witness:
  "fst (generateMockSearchResults None risingThenFalling)
     = fst (generateMockSearchResults (Some ''blob:localhost/1'') risingThenHalf)
   \<and> risingThenFalling 8 \<noteq> risingThenHalf 8"
proof -
  have h: "\<forall>i<8. risingThenFalling i = risingThenHalf i"
    by (simp add: risingThenFalling_def risingThenHalf_def)
  have d: "risingThenFalling 8 \<noteq> risingThenHalf 8"
    by (simp add: risingThenFalling_def risingThenHalf_def)
  from generateMockSearchResults_same_draws [OF h, of None "Some ''blob:localhost/1''"] d
  show ?thesis
    by simp
qed

end
